theory Spec2Isabelle
  imports Complex_Main "HOL-Library.Char_ord" "HOL-Library.List_Lexorder"
begin

section \<open>The Voices: model listing and persona completion\<close>

text \<open>
  A shallow embedding of \<^verbatim>\<open>src/thevoices/__main__.py\<close>. The two tools of the
  server, \<^verbatim>\<open>list_available_models\<close> and \<^verbatim>\<open>ask_the_voice\<close>, read the process
  environment and call into the completion client (\<^verbatim>\<open>model_list\<close>,
  \<^verbatim>\<open>get_llm_provider\<close>, \<^verbatim>\<open>completion\<close>). The environment is passed as an
  explicit snapshot and the client's three entry points are parameters.

  Python strings are modelled as \<^typ>\<open>string\<close>, the UTF-8 bytes of the text. Python
  compares strings code point by code point; UTF-8 keeps that order, so the
  lexicographic order on byte lists (\<open>Char_ord\<close>, \<open>List_Lexorder\<close>) is the order
  \<^verbatim>\<open>list.sort\<close> uses.
\<close>

subsection \<open>Environment and exceptions\<close>

type_synonym environ = "string \<rightharpoonup> string"

text \<open>\<^verbatim>\<open>os.environ.get(key)\<close>: the value, or \<^verbatim>\<open>None\<close> for an unset variable.\<close>

definition environ_get :: "environ \<Rightarrow> string \<Rightarrow> string option" where
  "environ_get env key = env key"

text \<open>
  The truth value of an optional string, as \<^verbatim>\<open>if x\<close>, \<^verbatim>\<open>x or y\<close>, \<^verbatim>\<open>not x\<close> and
  \<^verbatim>\<open>all(...)\<close> take it: \<^verbatim>\<open>None\<close> and the empty string are false.
\<close>

fun truthy :: "string option \<Rightarrow> bool" where
  "truthy None = False"
| "truthy (Some s) = (s \<noteq> [])"

text \<open>
  A raised exception: its class, as far as the handlers of this program tell classes
  apart, and the text \<^verbatim>\<open>str(e)\<close> that the handlers format into their messages.
\<close>

datatype exception_class =
  AttributeError | IndexError | TypeError | KeyError | OtherException

datatype py_exception = Raise exception_class string

fun str_exn :: "py_exception \<Rightarrow> string" where
  "str_exn (Raise cls description) = description"

subsection \<open>Provider availability (lines 26--54)\<close>

text \<open>
  A value of \<^verbatim>\<open>provider_key_mapping\<close> is one variable name or a list of names;
  the loop tells them apart with \<^verbatim>\<open>isinstance(keys, list)\<close>.
\<close>

datatype key_requirement = SingleKey string | KeyList "string list"

definition provider_key_mapping :: "(string \<times> key_requirement) list" where
  "provider_key_mapping =
    [(''openai'', SingleKey ''OPENAI_API_KEY''),
     (''anthropic'', SingleKey ''ANTHROPIC_API_KEY''),
     (''vertex_ai'', KeyList [''VERTEXAI_PROJECT'', ''VERTEXAI_LOCATION'']),
     (''azure'', KeyList [''AZURE_API_KEY'', ''AZURE_API_BASE'']),
     (''cohere'', SingleKey ''COHERE_API_KEY''),
     (''huggingface'', SingleKey ''HUGGINGFACE_API_KEY''),
     (''replicate'', SingleKey ''REPLICATE_API_TOKEN''),
     (''together_ai'', SingleKey ''TOGETHERAI_API_KEY''),
     (''openrouter'', SingleKey ''OPENROUTER_API_KEY''),
     (''ai21'', SingleKey ''AI21_API_KEY''),
     (''palm'', SingleKey ''PALM_API_KEY''),
     (''bedrock'', KeyList [''AWS_ACCESS_KEY_ID'', ''AWS_SECRET_ACCESS_KEY'']),
     (''sagemaker'', KeyList [''AWS_ACCESS_KEY_ID'', ''AWS_SECRET_ACCESS_KEY''])]"

text \<open>The test of one table entry (lines 47--54).\<close>

fun keys_present :: "environ \<Rightarrow> key_requirement \<Rightarrow> bool" where
  "keys_present env (KeyList keys) = list_all (\<lambda>key. truthy (environ_get env key)) keys"
| "keys_present env (SingleKey keys) = truthy (environ_get env keys)"

text \<open>
  The loop over \<^verbatim>\<open>provider_key_mapping.items()\<close> (line 46), adding to the set
  \<^verbatim>\<open>available_providers\<close>.
\<close>

fun scan_providers :: "environ \<Rightarrow> (string \<times> key_requirement) list \<Rightarrow> string set \<Rightarrow> string set" where
  "scan_providers env [] available = available"
| "scan_providers env ((provider, keys) # items) available =
     scan_providers env items
       (if keys_present env keys then insert provider available else available)"

definition available_providers :: "environ \<Rightarrow> string set" where
  "available_providers env = scan_providers env provider_key_mapping {}"

text \<open>
  The variables an entry names, whichever of its two forms it has; used to state
  properties of the table, not by the program.
\<close>

fun required_variables :: "key_requirement \<Rightarrow> string list" where
  "required_variables (SingleKey key) = [key]"
| "required_variables (KeyList keys) = keys"

definition variable_set :: "environ \<Rightarrow> string \<Rightarrow> bool" where
  "variable_set env key = (case env key of None \<Rightarrow> False | Some v \<Rightarrow> v \<noteq> [])"

subsection \<open>The catalog filter (lines 56--77)\<close>

text \<open>
  \<^verbatim>\<open>get_llm_provider(model)\<close> returns a 4-tuple whose second component is the
  provider, or raises; \<^verbatim>\<open>except Exception: continue\<close> skips the entry.
\<close>

type_synonym provider_info = "string \<times> string \<times> string option \<times> string option"

fun filter_models ::
  "(string \<Rightarrow> py_exception + provider_info) \<Rightarrow> string set \<Rightarrow> string list \<Rightarrow> string list \<Rightarrow> string list" where
  "filter_models get_llm_provider available [] available_models = available_models"
| "filter_models get_llm_provider available (model # rest) available_models =
     (case get_llm_provider model of
        Inl e \<Rightarrow> filter_models get_llm_provider available rest available_models
      | Inr (_, provider, _, _) \<Rightarrow>
          if provider \<in> available
          then filter_models get_llm_provider available rest
                 (available_models @ [provider @ ''/'' @ model])
          else filter_models get_llm_provider available rest available_models)"

definition list_available_models ::
  "environ \<Rightarrow> string list \<Rightarrow> (string \<Rightarrow> py_exception + provider_info) \<Rightarrow> string list" where
  "list_available_models env model_list get_llm_provider =
     (let available_models =
            filter_models get_llm_provider (available_providers env) model_list [];
          current_model = environ_get env ''LITELLM_MODEL'';
          available_models =
            (if truthy current_model
             then (case current_model of Some m \<Rightarrow> m # available_models
                                        | None \<Rightarrow> available_models)
             else available_models)
      in sort available_models)"

subsection \<open>The persona prompt (lines 234--243)\<close>

text \<open>
  The f-string pieces of \<^verbatim>\<open>prompt\<close>, concatenated as Python concatenates adjacent
  literals. Formatting a \<^verbatim>\<open>str\<close> into an f-string inserts it unchanged.
\<close>

definition prompt :: "string \<Rightarrow> string \<Rightarrow> string \<Rightarrow> string \<Rightarrow> string" where
  "prompt role_title role_description context task =
     (''You are '' @ [CHR 0x27] @ role_title @ [CHR 0x27] @ ''\<newline>\<newline>'') @
     ''# Role Description\<newline>\<newline>'' @
     (role_description @ ''\<newline>\<newline>'') @
     ''# Context\<newline>\<newline>'' @
     (context @ ''\<newline>\<newline>'') @
     ''# Task\<newline>\<newline>'' @
     task"

subsection \<open>The completion call and its response (lines 245--271)\<close>

text \<open>
  \<^verbatim>\<open>completion_params\<close> is a dictionary from parameter names to values: the model
  name, the list of message dictionaries, and the temperature when there is one. The
  temperature is passed through uninterpreted, so its type is a parameter.
\<close>

datatype 'f param_value =
    StrValue string
  | MessagesValue "(string \<times> string) list list"
  | FloatValue 'f

type_synonym 'f completion_params = "string \<rightharpoonup> 'f param_value"

text \<open>
  The response is read along \<^verbatim>\<open>response.choices[0].message.content\<close>. Each of the
  three attributes may be missing from its object; reading a missing attribute raises
  \<^verbatim>\<open>AttributeError\<close> with the text the object gives it. A choice has a
  \<^verbatim>\<open>message\<close>, a message has a \<^verbatim>\<open>content\<close> that is a string or \<^verbatim>\<open>None\<close>.

  The value of \<^verbatim>\<open>choices\<close> is what \<^verbatim>\<open>[0]\<close> is applied to. It is a list of choice
  objects, on which \<^verbatim>\<open>[0]\<close> gives the first item or raises \<^verbatim>\<open>IndexError\<close> when
  the list is empty; or \<^verbatim>\<open>None\<close>, on which \<^verbatim>\<open>[0]\<close> raises \<^verbatim>\<open>TypeError\<close>; or
  a mapping, on which \<^verbatim>\<open>[0]\<close> looks up the key \<^verbatim>\<open>0\<close> and raises \<^verbatim>\<open>KeyError\<close>
  when the mapping has no such key.
\<close>

datatype 'a attribute = Missing string | Present 'a

datatype message_object = Message (content: "string option attribute")

datatype choice_object = Choice (message: "message_object attribute")

datatype dict_key = IntKey int | StrKey string

datatype choices_value =
    ChoiceList "choice_object list"
  | NoneValue
  | DictValue "(dict_key \<times> choice_object) list"

datatype model_response = ModelResponse (choices: "choices_value attribute")

fun getattr :: "'a attribute \<Rightarrow> py_exception + 'a" where
  "getattr (Missing description) = Inl (Raise AttributeError description)"
| "getattr (Present v) = Inr v"

text \<open>The subscription \<^verbatim>\<open>[0]\<close>, with the texts CPython gives its exceptions.\<close>

fun first_item :: "choices_value \<Rightarrow> py_exception + choice_object" where
  "first_item (ChoiceList []) = Inl (Raise IndexError ''list index out of range'')"
| "first_item (ChoiceList (x # xs)) = Inr x"
| "first_item NoneValue =
     Inl (Raise TypeError (CHR 0x27 # ''NoneType' object is not subscriptable''))"
| "first_item (DictValue items) =
     (case map_of items (IntKey 0) of
        None \<Rightarrow> Inl (Raise KeyError ''0'')
      | Some x \<Rightarrow> Inr x)"

definition response_content :: "model_response \<Rightarrow> py_exception + string option" where
  "response_content response =
     (case getattr (choices response) of
        Inl e \<Rightarrow> Inl e
      | Inr cs \<Rightarrow>
          (case first_item cs of
             Inl e \<Rightarrow> Inl e
           | Inr c \<Rightarrow>
               (case getattr (message c) of
                  Inl e \<Rightarrow> Inl e
                | Inr m \<Rightarrow> getattr (content m))))"

text \<open>
  How a call of the tool ends without a value: with the \<^verbatim>\<open>ToolError\<close> the function
  raises, or with an exception that no handler of the function catches.
\<close>

datatype failure = ToolError string | Propagated py_exception

text \<open>
  The second \<^verbatim>\<open>try\<close> block (lines 267--271): only \<^verbatim>\<open>AttributeError\<close> and
  \<^verbatim>\<open>IndexError\<close> are turned into a \<^verbatim>\<open>ToolError\<close>.
\<close>

definition extract_content :: "model_response \<Rightarrow> failure + string" where
  "extract_content response =
     (case response_content response of
        Inr found \<Rightarrow> Inr (case found of Some text \<Rightarrow> text | None \<Rightarrow> [])
      | Inl e \<Rightarrow>
          (case e of Raise cls description \<Rightarrow>
             if cls = AttributeError \<or> cls = IndexError
             then Inl (ToolError (''Unexpected response format: '' @ str_exn e))
             else Inl (Propagated e)))"

text \<open>
  A call of \<^verbatim>\<open>ask_the_voice\<close> yields the parameter sets it passed to
  \<^verbatim>\<open>completion\<close>, in order, and its result.
\<close>

record 'f invocation =
  dispatched :: "'f completion_params list"
  outcome :: "failure + string"

definition missing_model_message :: string where
  "missing_model_message =
     ''Missing environment variable: LITELLM_MODEL and no model parameter provided''"

definition ask_the_voice ::
  "environ \<Rightarrow> ('f completion_params \<Rightarrow> py_exception + model_response) \<Rightarrow>
   string \<Rightarrow> string \<Rightarrow> string \<Rightarrow> string \<Rightarrow> string option \<Rightarrow> 'f option \<Rightarrow> 'f invocation" where
  "ask_the_voice env completion role_title role_description context task model temperature =
     (let selected_model =
            (if truthy model then model else environ_get env ''LITELLM_MODEL'')
      in if \<not> truthy selected_model
         then \<lparr>dispatched = [], outcome = Inl (ToolError missing_model_message)\<rparr>
         else
           (let completion_params =
                  [''model'' \<mapsto> StrValue (case selected_model of Some m \<Rightarrow> m | None \<Rightarrow> []),
                   ''messages'' \<mapsto> MessagesValue
                      [[(''role'', ''system''),
                        (''content'', prompt role_title role_description context task)],
                       [(''role'', ''user''),
                        (''content'', ''Please respond based on the above instructions.'')]]];
                completion_params =
                  (case temperature of
                     None \<Rightarrow> completion_params
                   | Some t \<Rightarrow> completion_params(''temperature'' \<mapsto> FloatValue t))
            in \<lparr>dispatched = [completion_params],
                outcome =
                  (case completion completion_params of
                     Inl e \<Rightarrow> Inl (ToolError (''LLM request failed: '' @ str_exn e))
                   | Inr response \<Rightarrow> extract_content response)\<rparr>))"

subsection \<open>Notions used to state the properties\<close>

text \<open>
  The providers whose table entry names a given variable, and every pair of a provider
  and one of its variables.
\<close>

definition providers_requiring :: "string \<Rightarrow> string list" where
  "providers_requiring key =
     map fst (filter (\<lambda>(provider, keys). key \<in> set (required_variables keys))
       provider_key_mapping)"

definition requirement_pairs :: "(string \<times> string) list" where
  "requirement_pairs =
     concat (map (\<lambda>(provider, keys). map (Pair provider) (required_variables keys))
       provider_key_mapping)"

text \<open>
  The providers that lose their credentials together with \<open>provider\<close>: the Bedrock and
  SageMaker entries name the same two AWS variables, every other entry has variables of
  its own.
\<close>

definition removed_with :: "string \<Rightarrow> string list" where
  "removed_with provider =
     (if provider = ''bedrock'' \<or> provider = ''sagemaker''
      then [''bedrock'', ''sagemaker''] else [provider])"

definition shares_as_expected :: "string \<times> string \<Rightarrow> bool" where
  "shares_as_expected = (\<lambda>(provider, key). providers_requiring key = removed_with provider)"

text \<open>What one catalog entry adds to the list, if anything (the body of the loop).\<close>

definition entry_line ::
  "(string \<Rightarrow> py_exception + provider_info) \<Rightarrow> string set \<Rightarrow> string \<Rightarrow> string option" where
  "entry_line get_llm_provider available model =
     (case get_llm_provider model of
        Inl e \<Rightarrow> None
      | Inr (_, provider, _, _) \<Rightarrow>
          if provider \<in> available then Some (provider @ ''/'' @ model) else None)"

definition selected_models :: "environ \<Rightarrow> string list" where
  "selected_models env =
     (case env ''LITELLM_MODEL'' of None \<Rightarrow> [] | Some m \<Rightarrow> if m = [] then [] else [m])"

text \<open>
  The layout the specification gives the prompt: a declaration quoting the role title,
  then three sections, each a header line, an empty line and the body.
\<close>

definition role_declaration :: "string \<Rightarrow> string" where
  "role_declaration role_title = ''You are '' @ [CHR 0x27] @ role_title @ [CHR 0x27]"

definition section_text :: "string \<Rightarrow> string \<Rightarrow> string" where
  "section_text header body = ''# '' @ header @ ''\<newline>\<newline>'' @ body"

text \<open>
  \<open>rests_after p s\<close> lists what follows each occurrence of \<open>p\<close> in \<open>s\<close>;
  \<open>contains_in_order ps s\<close> holds when the pieces \<open>ps\<close> occur in \<open>s\<close> one after
  the other, without overlap.
\<close>

fun rests_after :: "string \<Rightarrow> string \<Rightarrow> string list" where
  "rests_after p [] = (if p = [] then [[]] else [])"
| "rests_after p (c # s) =
     (if take (length p) (c # s) = p then [drop (length p) (c # s)] else []) @ rests_after p s"

fun contains_in_order :: "string list \<Rightarrow> string \<Rightarrow> bool" where
  "contains_in_order [] s = True"
| "contains_in_order (p # ps) s = list_ex (contains_in_order ps) (rests_after p s)"

text \<open>The model the call resolves to (line 228).\<close>

definition selected_model :: "environ \<Rightarrow> string option \<Rightarrow> string option" where
  "selected_model env model =
     (if truthy model then model else environ_get env ''LITELLM_MODEL'')"

subsection \<open>Example inputs\<close>

definition openai_env :: environ where
  "openai_env = [''OPENAI_API_KEY'' \<mapsto> ''sk-test'']"

definition vertex_env :: environ where
  "vertex_env =
     [''VERTEXAI_PROJECT'' \<mapsto> ''proj'', ''VERTEXAI_LOCATION'' \<mapsto> '''',
      ''COHERE_API_KEY'' \<mapsto> ''key'']"

definition aws_env :: environ where
  "aws_env = [''AWS_ACCESS_KEY_ID'' \<mapsto> ''AKIA'', ''AWS_SECRET_ACCESS_KEY'' \<mapsto> ''secret'']"

definition selected_env :: environ where
  "selected_env = [''OPENAI_API_KEY'' \<mapsto> ''sk-test'', ''LITELLM_MODEL'' \<mapsto> ''local/llama'']"

definition example_catalog :: "string list" where
  "example_catalog = [''gpt-4'', ''mystery'', ''claude-3'', ''gpt-3.5-turbo'']"

definition example_provider :: "string \<Rightarrow> py_exception + provider_info" where
  "example_provider model =
     (if model = ''gpt-4'' \<or> model = ''gpt-3.5-turbo'' then Inr (model, ''openai'', None, None)
      else if model = ''claude-3'' then Inr (model, ''anthropic'', None, None)
      else Inl (Raise OtherException ''LLM Provider NOT provided''))"

definition text_response :: "string option \<Rightarrow> model_response" where
  "text_response found =
     ModelResponse (Present (ChoiceList [Choice (Present (Message (Present found)))]))"

definition empty_response :: model_response where
  "empty_response = ModelResponse (Present (ChoiceList []))"

definition none_response :: model_response where
  "none_response = ModelResponse (Present NoneValue)"

definition mapping_response :: model_response where
  "mapping_response =
     ModelResponse (Present (DictValue
       [(StrKey ''message'', Choice (Present (Message (Present (Some ''fine'')))))]))"

definition reply :: "model_response \<Rightarrow> real completion_params \<Rightarrow> py_exception + model_response" where
  "reply response params = Inr response"

text \<open>A completion whose reply tells whether its parameters held a temperature.\<close>

definition temperature_probe :: "real completion_params \<Rightarrow> py_exception + model_response" where
  "temperature_probe params =
     (case params ''temperature'' of
        None \<Rightarrow> Inr (text_response (Some ''got no temperature''))
      | Some v \<Rightarrow> Inr (text_response (Some ''got a temperature'')))"

section \<open>Provider availability\<close>

lemma truthy_iff: "truthy x \<longleftrightarrow> (\<exists>v. x = Some v \<and> v \<noteq> [])"
  by (cases x) auto

lemma variable_set_iff:
  "variable_set env key \<longleftrightarrow> (\<exists>v. env key = Some v \<and> v \<noteq> [])"
  by (cases "env key") (auto simp: variable_set_def)

lemma keys_present_iff:
  "keys_present env keys \<longleftrightarrow> (\<forall>key \<in> set (required_variables keys). variable_set env key)"
  by (cases keys) (simp_all add: list_all_iff environ_get_def variable_set_iff truthy_iff)

lemma scan_providers_iff:
  "p \<in> scan_providers env items available \<longleftrightarrow>
     p \<in> available \<or> (\<exists>keys. (p, keys) \<in> set items \<and> keys_present env keys)"
  by (induction env items available rule: scan_providers.induct) auto

lemma distinct_providers: "distinct (map fst provider_key_mapping)"
  by (simp add: provider_key_mapping_def)

lemma in_table_iff:
  "(p, keys) \<in> set provider_key_mapping \<longleftrightarrow> map_of provider_key_mapping p = Some keys"
  using distinct_providers by (metis map_of_eq_Some_iff)

lemma available_iff:
  "p \<in> available_providers env \<longleftrightarrow>
     (\<exists>keys. map_of provider_key_mapping p = Some keys \<and>
        (\<forall>key \<in> set (required_variables keys). variable_set env key))"
  by (simp add: available_providers_def scan_providers_iff in_table_iff keys_present_iff)

text \<open>
  C1. In every environment, a provider is in the resolved set exactly when the table has
  an entry for it and every variable that entry names, one or several, is set to a
  non-empty value. An empty value counts as unset.
\<close>

theorem available_iff_required_variables_set:
  "p \<in> available_providers env \<longleftrightarrow>
     (\<exists>keys. map_of provider_key_mapping p = Some keys \<and>
        (\<forall>key \<in> set (required_variables keys). \<exists>v. env key = Some v \<and> v \<noteq> ''''))"
  unfolding available_iff variable_set_iff ..

theorem available_iff_required_variables_set_witness:
  "''cohere'' \<in> available_providers vertex_env \<and>
   ''vertex_ai'' \<notin> available_providers vertex_env \<and>
   ''openai'' \<notin> available_providers vertex_env"
  using available_iff_required_variables_set [of "''cohere''" vertex_env]
    available_iff_required_variables_set [of "''vertex_ai''" vertex_env]
    available_iff_required_variables_set [of "''openai''" vertex_env]
  by (simp add: provider_key_mapping_def vertex_env_def)

lemma providers_requiring_iff:
  "q \<in> set (providers_requiring key) \<longleftrightarrow>
     (\<exists>keys. map_of provider_key_mapping q = Some keys \<and> key \<in> set (required_variables keys))"
  by (force simp: providers_requiring_def in_table_iff [symmetric])

lemma requirement_pairs_iff:
  "(p, key) \<in> set requirement_pairs \<longleftrightarrow>
     (\<exists>keys. map_of provider_key_mapping p = Some keys \<and> key \<in> set (required_variables keys))"
  by (auto simp: requirement_pairs_def in_table_iff [symmetric])

lemma variable_set_unset:
  "off = None \<or> off = Some [] \<Longrightarrow>
   variable_set (env(key := off)) k \<longleftrightarrow> k \<noteq> key \<and> variable_set env k"
  by (auto simp: variable_set_def)

lemma unset_removes_requiring:
  assumes "off = None \<or> off = Some []"
  shows "available_providers (env(key := off)) =
           available_providers env - set (providers_requiring key)"
proof (rule set_eqI)
  fix q
  show "q \<in> available_providers (env(key := off)) \<longleftrightarrow>
        q \<in> available_providers env - set (providers_requiring key)"
    unfolding Diff_iff available_iff providers_requiring_iff variable_set_unset [OF assms]
    by auto
qed

lemma all_share_as_expected: "list_all shares_as_expected requirement_pairs"
  by code_simp

lemma aws_available: "available_providers aws_env = {''bedrock'', ''sagemaker''}"
  by (auto simp add: available_providers_def provider_key_mapping_def aws_env_def environ_get_def)

lemma aws_unset: "available_providers (aws_env(''AWS_ACCESS_KEY_ID'' := None)) = {}"
  by (simp add: available_providers_def provider_key_mapping_def aws_env_def environ_get_def)

text \<open>
  C2, as stated, fails. With both AWS variables set, Bedrock and SageMaker are both
  available; Bedrock's entry names \<^verbatim>\<open>AWS_ACCESS_KEY_ID\<close>; unsetting that one variable
  removes SageMaker as well, so the resolved set is not the old one without Bedrock.
\<close>

theorem unset_shared_variable_counterexample:
  "''bedrock'' \<in> available_providers aws_env \<and>
   map_of provider_key_mapping ''bedrock'' =
     Some (KeyList [''AWS_ACCESS_KEY_ID'', ''AWS_SECRET_ACCESS_KEY'']) \<and>
   ''sagemaker'' \<in> available_providers aws_env \<and>
   ''sagemaker'' \<notin> available_providers (aws_env(''AWS_ACCESS_KEY_ID'' := None)) \<and>
   available_providers (aws_env(''AWS_ACCESS_KEY_ID'' := None)) \<noteq>
     available_providers aws_env - {''bedrock''}"
  unfolding aws_available aws_unset by (simp add: provider_key_mapping_def)

text \<open>
  C2, amended. In every environment in which a provider is available, changing any single
  one of its required variables to absent or empty removes that provider and changes no
  other provider's availability, except that Bedrock and SageMaker, whose entries name
  the same two AWS variables, are removed together.
\<close>

theorem unset_required_variable:
  assumes "p \<in> available_providers env"
    and "map_of provider_key_mapping p = Some keys"
    and "key \<in> set (required_variables keys)"
    and "off = None \<or> off = Some ''''"
  shows "available_providers (env(key := off)) =
           available_providers env - set (removed_with p) \<and>
         p \<in> set (removed_with p)"
proof -
  have "(p, key) \<in> set requirement_pairs"
    using assms(2,3) by (auto simp: requirement_pairs_iff)
  with all_share_as_expected have "shares_as_expected (p, key)"
    by (simp add: list_all_iff)
  then have "providers_requiring key = removed_with p"
    by (simp add: shares_as_expected_def)
  with unset_removes_requiring [OF assms(4)] show ?thesis
    by (simp add: removed_with_def)
qed

theorem unset_required_variable_witness:
  "available_providers (vertex_env(''COHERE_API_KEY'' := Some '''')) =
     available_providers vertex_env - {''cohere''} \<and>
   available_providers (aws_env(''AWS_SECRET_ACCESS_KEY'' := None)) =
     available_providers aws_env - {''bedrock'', ''sagemaker''}"
proof -
  have cohere: "''cohere'' \<in> available_providers vertex_env"
    by (simp add: available_iff provider_key_mapping_def vertex_env_def variable_set_def)
  have sagemaker: "''sagemaker'' \<in> available_providers aws_env"
    by (simp add: aws_available)
  show ?thesis
    using unset_required_variable [OF cohere, of "SingleKey ''COHERE_API_KEY''"
        "''COHERE_API_KEY''" "Some ''''"]
      unset_required_variable [OF sagemaker,
        of "KeyList [''AWS_ACCESS_KEY_ID'', ''AWS_SECRET_ACCESS_KEY'']"
        "''AWS_SECRET_ACCESS_KEY''" None]
    by (simp add: provider_key_mapping_def removed_with_def)
qed

section \<open>The model list\<close>

lemma filter_models_eq:
  "filter_models g available models acc =
     acc @ List.map_filter (entry_line g available) models"
  by (induction models arbitrary: acc)
     (auto simp: entry_line_def split: sum.splits)

lemma map_filter_skip:
  "List.map_filter (entry_line g available) (filter (\<lambda>m. \<not> isl (g m)) models) =
   List.map_filter (entry_line g available) models"
  by (induction models) (auto simp: entry_line_def split: sum.splits)

lemma list_available_models_eq:
  "list_available_models env model_list g =
     sort (selected_models env @
           List.map_filter (entry_line g (available_providers env)) model_list)"
  by (cases "env ''LITELLM_MODEL''")
     (simp_all add: list_available_models_def selected_models_def filter_models_eq
        environ_get_def)

lemma entry_line_Some:
  "entry_line g available model = Some x \<longleftrightarrow>
     (\<exists>a provider b c. g model = Inr (a, provider, b, c) \<and> provider \<in> available \<and>
        x = provider @ ''/'' @ model)"
  by (auto simp: entry_line_def split: sum.splits)

lemma openai_available: "available_providers openai_env = {''openai''}"
  by (simp add: available_providers_def provider_key_mapping_def openai_env_def environ_get_def)

lemma selected_available: "available_providers selected_env = {''openai''}"
  by (simp add: available_providers_def provider_key_mapping_def selected_env_def
      environ_get_def)

lemma selected_env_list:
  "list_available_models selected_env example_catalog example_provider =
     [''local/llama'', ''openai/gpt-3.5-turbo'', ''openai/gpt-4'']"
  unfolding list_available_models_def selected_available
  by (simp add: selected_env_def example_catalog_def example_provider_def environ_get_def
      less_eq_char_def less_char_def)

lemma openai_env_list:
  "list_available_models openai_env [''gpt-4'', ''claude-3''] example_provider =
     [''openai/gpt-4'']"
  unfolding list_available_models_def openai_available
  by (simp add: openai_env_def example_provider_def environ_get_def)

text \<open>
  C4. For every environment, catalog and provider lookup, the list that
  \<^verbatim>\<open>list_available_models\<close> returns is sorted in ascending lexicographic order.
\<close>

theorem list_available_models_sorted:
  "sorted (list_available_models env model_list get_llm_provider)"
  unfolding list_available_models_eq by (rule sorted_sort)

theorem list_available_models_sorted_witness:
  "sorted [''local/llama'', ''openai/gpt-3.5-turbo'', ''openai/gpt-4''] \<and>
   list_available_models selected_env example_catalog example_provider =
     [''local/llama'', ''openai/gpt-3.5-turbo'', ''openai/gpt-4'']"
  using list_available_models_sorted [of selected_env example_catalog example_provider]
  by (simp only: selected_env_list simp_thms)

text \<open>
  C5. When \<^verbatim>\<open>LITELLM_MODEL\<close> is set to a non-empty value, that value is an element of
  the returned list, whatever the catalog, the provider lookup and the available
  providers are.
\<close>

theorem selected_model_listed:
  assumes "env ''LITELLM_MODEL'' = Some V" and "V \<noteq> ''''"
  shows "V \<in> set (list_available_models env model_list get_llm_provider)"
  unfolding list_available_models_eq set_sort using assms by (simp add: selected_models_def)

theorem selected_model_listed_witness:
  "''local/llama'' \<in> set (list_available_models selected_env [] example_provider)"
proof -
  have "selected_env ''LITELLM_MODEL'' = Some ''local/llama''"
    by (simp add: selected_env_def)
  then show ?thesis
    by (rule selected_model_listed) simp
qed

text \<open>
  C6. The listing has a value for every catalog and provider lookup. An entry for which
  the lookup raises is skipped: the list is the one computed from the catalog without
  such entries, so the other entries are processed as if it were not there. Every
  element of the list is the selected model or comes from an entry whose lookup
  succeeded, with an available provider.
\<close>

theorem unresolved_entries_skipped:
  "list_available_models env model_list get_llm_provider =
     list_available_models env (filter (\<lambda>m. \<not> isl (get_llm_provider m)) model_list)
       get_llm_provider \<and>
   (\<forall>x \<in> set (list_available_models env model_list get_llm_provider).
      (env ''LITELLM_MODEL'' = Some x \<and> x \<noteq> '''') \<or>
      (\<exists>model \<in> set model_list. \<exists>a provider b c.
          get_llm_provider model = Inr (a, provider, b, c) \<and>
          provider \<in> available_providers env \<and>
          x = provider @ ''/'' @ model))"
proof
  show "list_available_models env model_list get_llm_provider =
     list_available_models env (filter (\<lambda>m. \<not> isl (get_llm_provider m)) model_list)
       get_llm_provider"
    unfolding list_available_models_eq map_filter_skip ..
next
  show "\<forall>x \<in> set (list_available_models env model_list get_llm_provider).
      (env ''LITELLM_MODEL'' = Some x \<and> x \<noteq> '''') \<or>
      (\<exists>model \<in> set model_list. \<exists>a provider b c.
          get_llm_provider model = Inr (a, provider, b, c) \<and>
          provider \<in> available_providers env \<and>
          x = provider @ ''/'' @ model)"
  proof
    fix x
    assume "x \<in> set (list_available_models env model_list get_llm_provider)"
    then consider "x \<in> set (selected_models env)"
      | "x \<in> set (List.map_filter (entry_line get_llm_provider (available_providers env))
                    model_list)"
      unfolding list_available_models_eq set_sort by auto
    then show "(env ''LITELLM_MODEL'' = Some x \<and> x \<noteq> '''') \<or>
      (\<exists>model \<in> set model_list. \<exists>a provider b c.
          get_llm_provider model = Inr (a, provider, b, c) \<and>
          provider \<in> available_providers env \<and>
          x = provider @ ''/'' @ model)"
    proof cases
      case 1
      then show ?thesis by (auto simp: selected_models_def split: option.splits if_splits)
    next
      case 2
      then obtain model where "model \<in> set model_list"
        "entry_line get_llm_provider (available_providers env) model = Some x"
        by (auto simp: List.map_filter_def)
      then show ?thesis unfolding entry_line_Some by blast
    qed
  qed
qed

theorem unresolved_entries_skipped_witness:
  "isl (example_provider ''mystery'') \<and>
   list_available_models selected_env example_catalog example_provider =
     list_available_models selected_env [''gpt-4'', ''claude-3'', ''gpt-3.5-turbo'']
       example_provider \<and>
   list_available_models selected_env example_catalog example_provider =
     [''local/llama'', ''openai/gpt-3.5-turbo'', ''openai/gpt-4'']"
  using unresolved_entries_skipped [of selected_env example_catalog example_provider]
  by (simp add: selected_env_list) (simp add: example_catalog_def example_provider_def)

section \<open>The persona prompt\<close>

lemma rests_after_mem: "r \<in> set (rests_after p (a @ p @ r))"
proof (induction a)
  case Nil
  show ?case
  proof (cases "p @ r")
    case Nil
    then show ?thesis by simp
  next
    case (Cons c s)
    have "take (length p) (p @ r) = p" and "drop (length p) (p @ r) = r" by simp_all
    then have "take (length p) (c # s) = p" and "drop (length p) (c # s) = r"
      unfolding Cons by blast+
    then have "r \<in> set (rests_after p (c # s))" by simp
    then show ?thesis unfolding append_Nil Cons .
  qed
next
  case (Cons x a)
  then show ?case by simp
qed

lemma contains_in_order_Cons:
  "contains_in_order ps r \<Longrightarrow> contains_in_order (p # ps) (a @ p @ r)"
  using rests_after_mem [of r p a] by (auto simp: list_ex_iff)

lemma prompt_layout:
  "prompt role_title role_description context task =
     role_declaration role_title @ ''\<newline>\<newline>'' @
     section_text ''Role Description'' role_description @ ''\<newline>\<newline>'' @
     section_text ''Context'' context @ ''\<newline>\<newline>'' @
     section_text ''Task'' task"
  by (simp add: prompt_def role_declaration_def section_text_def)

lemma sections_in_order:
  "contains_in_order [d, s1, s2, s3] (d @ ''\<newline>'' @ s1 @ ''\<newline>\<newline>'' @ s2 @ ''\<newline>\<newline>'' @ s3)"
proof -
  have "contains_in_order [] []" by simp
  then have "contains_in_order [s3] (''\<newline>\<newline>'' @ s3 @ [])"
    by (rule contains_in_order_Cons)
  then have "contains_in_order [s2, s3] (''\<newline>\<newline>'' @ s2 @ (''\<newline>\<newline>'' @ s3 @ []))"
    by (rule contains_in_order_Cons)
  then have "contains_in_order [s1, s2, s3]
      (''\<newline>'' @ s1 @ (''\<newline>\<newline>'' @ s2 @ (''\<newline>\<newline>'' @ s3 @ [])))"
    by (rule contains_in_order_Cons)
  then have "contains_in_order [d, s1, s2, s3]
      ([] @ d @ (''\<newline>'' @ s1 @ (''\<newline>\<newline>'' @ s2 @ (''\<newline>\<newline>'' @ s3 @ []))))"
    by (rule contains_in_order_Cons)
  then show ?thesis by simp
qed

text \<open>
  C9. For any four strings, empty ones included, the prompt is the role declaration
  quoting the title on a line of its own, an empty line, and the sections
  \<^verbatim>\<open>Role Description\<close>, \<^verbatim>\<open>Context\<close> and \<^verbatim>\<open>Task\<close> separated by empty lines, each
  holding its field unchanged; so these four pieces occur in the prompt in this order.
  The prompt is a function of the four strings alone and has a value for all of them.
\<close>

theorem prompt_sections_in_order:
  "prompt role_title role_description context task =
     role_declaration role_title @ ''\<newline>\<newline>'' @
     section_text ''Role Description'' role_description @ ''\<newline>\<newline>'' @
     section_text ''Context'' context @ ''\<newline>\<newline>'' @
     section_text ''Task'' task \<and>
   contains_in_order
     [role_declaration role_title @ ''\<newline>'',
      section_text ''Role Description'' role_description,
      section_text ''Context'' context,
      section_text ''Task'' task]
     (prompt role_title role_description context task)"
proof
  show "prompt role_title role_description context task =
     role_declaration role_title @ ''\<newline>\<newline>'' @
     section_text ''Role Description'' role_description @ ''\<newline>\<newline>'' @
     section_text ''Context'' context @ ''\<newline>\<newline>'' @
     section_text ''Task'' task"
    by (rule prompt_layout)
next
  show "contains_in_order
     [role_declaration role_title @ ''\<newline>'',
      section_text ''Role Description'' role_description,
      section_text ''Context'' context,
      section_text ''Task'' task]
     (prompt role_title role_description context task)"
    unfolding prompt_layout
    using sections_in_order [of "role_declaration role_title @ ''\<newline>''"
        "section_text ''Role Description'' role_description"
        "section_text ''Context'' context" "section_text ''Task'' task"]
    by simp
qed

theorem prompt_sections_in_order_witness:
  "prompt ''The Reviewer'' ''X'' ''Y'' ''Z'' =
     ''You are 'The Reviewer'\<newline>\<newline># Role Description\<newline>\<newline>X\<newline>\<newline># Context\<newline>\<newline>Y\<newline>\<newline># Task\<newline>\<newline>Z'' \<and>
   contains_in_order
     [''You are 'The Reviewer'\<newline>'', ''# Role Description\<newline>\<newline>X'',
      ''# Context\<newline>\<newline>Y'', ''# Task\<newline>\<newline>Z'']
     ''You are 'The Reviewer'\<newline>\<newline># Role Description\<newline>\<newline>X\<newline>\<newline># Context\<newline>\<newline>Y\<newline>\<newline># Task\<newline>\<newline>Z'' \<and>
   prompt [] [] [] [] =
     ''You are '' @ [CHR 0x27, CHR 0x27] @ ''\<newline>\<newline># Role Description\<newline>\<newline>\<newline>\<newline># Context\<newline>\<newline>\<newline>\<newline># Task\<newline>\<newline>''"
  using prompt_sections_in_order [of "''The Reviewer''" "''X''" "''Y''" "''Z''"]
    prompt_sections_in_order [of "[]" "[]" "[]" "[]"]
  by (simp add: role_declaration_def section_text_def)

section \<open>The completion call\<close>

lemma dispatched_cases:
  "dispatched (ask_the_voice env completion role_title role_description context task
       model temperature) =
     (if truthy (selected_model env model)
      then [(case temperature of
               None \<Rightarrow>
                 [''model'' \<mapsto>
                    StrValue (case selected_model env model of Some m \<Rightarrow> m | None \<Rightarrow> []),
                  ''messages'' \<mapsto> MessagesValue
                    [[(''role'', ''system''),
                      (''content'', prompt role_title role_description context task)],
                     [(''role'', ''user''),
                      (''content'', ''Please respond based on the above instructions.'')]]]
             | Some t \<Rightarrow>
                 [''model'' \<mapsto>
                    StrValue (case selected_model env model of Some m \<Rightarrow> m | None \<Rightarrow> []),
                  ''messages'' \<mapsto> MessagesValue
                    [[(''role'', ''system''),
                      (''content'', prompt role_title role_description context task)],
                     [(''role'', ''user''),
                      (''content'', ''Please respond based on the above instructions.'')]],
                  ''temperature'' \<mapsto> FloatValue t])]
      else [])"
  by (simp add: ask_the_voice_def selected_model_def Let_def split: option.splits)

lemma outcome_dispatched:
  assumes "dispatched (ask_the_voice env completion role_title role_description context task
      model temperature) = [params]"
  shows "outcome (ask_the_voice env completion role_title role_description context task
      model temperature) =
     (case completion params of
        Inl e \<Rightarrow> Inl (ToolError (''LLM request failed: '' @ str_exn e))
      | Inr response \<Rightarrow> extract_content response)"
  using assms by (simp add: ask_the_voice_def Let_def split: if_splits)

lemma dispatched_example:
  "\<exists>params. dispatched (ask_the_voice openai_env (reply response) ''The Reviewer'' ''X'' ''Y''
      ''Z'' (Some ''openai/gpt-4'') temperature) = [params]"
  by (simp add: dispatched_cases selected_model_def)

text \<open>
  C3. A call with no model argument in an environment where \<^verbatim>\<open>LITELLM_MODEL\<close> is not
  set ends with the \<^verbatim>\<open>ToolError\<close> that names the missing configuration, and
  \<^verbatim>\<open>completion\<close> has not been called.
\<close>

theorem missing_model_no_dispatch:
  assumes "env ''LITELLM_MODEL'' = None"
  shows "ask_the_voice env completion role_title role_description context task None temperature =
           \<lparr>dispatched = [],
            outcome = Inl (ToolError
              ''Missing environment variable: LITELLM_MODEL and no model parameter provided'')\<rparr>"
  using assms by (simp add: ask_the_voice_def environ_get_def missing_model_message_def)

theorem missing_model_no_dispatch_witness:
  "openai_env ''LITELLM_MODEL'' = None \<and>
   dispatched (ask_the_voice openai_env (reply (text_response (Some ''fine''))) ''The Reviewer''
      ''X'' ''Y'' ''Z'' None (Some 0.2)) = [] \<and>
   outcome (ask_the_voice openai_env (reply (text_response (Some ''fine''))) ''The Reviewer''
      ''X'' ''Y'' ''Z'' None (Some 0.2)) =
     Inl (ToolError
       ''Missing environment variable: LITELLM_MODEL and no model parameter provided'')"
proof -
  have unset: "openai_env ''LITELLM_MODEL'' = None"
    by (simp add: openai_env_def)
  show ?thesis
    using unset missing_model_no_dispatch [of openai_env
        "reply (text_response (Some ''fine''))" "''The Reviewer''" "''X''" "''Y''" "''Z''"
        "Some 0.2"]
    by simp
qed

text \<open>
  C7. When a model is resolved, \<^verbatim>\<open>completion\<close> is applied once, to a parameter set
  that has the key \<^verbatim>\<open>temperature\<close> exactly when the caller gave a temperature, and
  then with the caller's value; without one the key is absent. The result of the call is
  what \<^verbatim>\<open>completion\<close> returns or raises on that very parameter set, so this is the
  parameter set the downstream call receives. When no model is resolved, nothing is
  passed on.
\<close>

theorem temperature_passed_iff_supplied:
  "(truthy (if truthy model then model else env ''LITELLM_MODEL'') \<longrightarrow>
      (\<exists>params.
         dispatched (ask_the_voice env completion role_title role_description context task
           model temperature) = [params] \<and>
         (''temperature'' \<in> dom params \<longleftrightarrow> temperature \<noteq> None) \<and>
         params ''temperature'' = map_option FloatValue temperature \<and>
         outcome (ask_the_voice env completion role_title role_description context task
           model temperature) =
           (case completion params of
              Inl e \<Rightarrow> Inl (ToolError (''LLM request failed: '' @ str_exn e))
            | Inr response \<Rightarrow> extract_content response))) \<and>
   (\<not> truthy (if truthy model then model else env ''LITELLM_MODEL'') \<longrightarrow>
      dispatched (ask_the_voice env completion role_title role_description context task
        model temperature) = [] \<and>
      outcome (ask_the_voice env completion role_title role_description context task
        model temperature) =
        Inl (ToolError
          ''Missing environment variable: LITELLM_MODEL and no model parameter provided''))"
proof (intro conjI impI)
  assume "truthy (if truthy model then model else env ''LITELLM_MODEL'')"
  then have resolved: "truthy (selected_model env model)"
    unfolding selected_model_def environ_get_def .
  have "\<exists>params.
      dispatched (ask_the_voice env completion role_title role_description context task
        model temperature) = [params] \<and>
      params ''temperature'' = map_option FloatValue temperature"
    unfolding dispatched_cases using resolved by (cases temperature) simp_all
  then obtain params where
    call: "dispatched (ask_the_voice env completion role_title role_description context task
        model temperature) = [params]"
    and held: "params ''temperature'' = map_option FloatValue temperature"
    by (elim exE conjE)
  have key: "''temperature'' \<in> dom params \<longleftrightarrow> temperature \<noteq> None"
    unfolding dom_def mem_Collect_eq held by (cases temperature) simp_all
  show "\<exists>params.
      dispatched (ask_the_voice env completion role_title role_description context task
        model temperature) = [params] \<and>
      (''temperature'' \<in> dom params \<longleftrightarrow> temperature \<noteq> None) \<and>
      params ''temperature'' = map_option FloatValue temperature \<and>
      outcome (ask_the_voice env completion role_title role_description context task
        model temperature) =
        (case completion params of
           Inl e \<Rightarrow> Inl (ToolError (''LLM request failed: '' @ str_exn e))
         | Inr response \<Rightarrow> extract_content response)"
  proof (intro exI conjI)
    show "dispatched (ask_the_voice env completion role_title role_description context task
        model temperature) = [params]"
      by (rule call)
    show "''temperature'' \<in> dom params \<longleftrightarrow> temperature \<noteq> None"
      by (rule key)
    show "params ''temperature'' = map_option FloatValue temperature"
      by (rule held)
    show "outcome (ask_the_voice env completion role_title role_description context task
        model temperature) =
        (case completion params of
           Inl e \<Rightarrow> Inl (ToolError (''LLM request failed: '' @ str_exn e))
         | Inr response \<Rightarrow> extract_content response)"
      by (rule outcome_dispatched [OF call])
  qed
next
  assume unresolved: "\<not> truthy (if truthy model then model else env ''LITELLM_MODEL'')"
  then have "\<not> truthy (selected_model env model)"
    unfolding selected_model_def environ_get_def .
  then show "dispatched (ask_the_voice env completion role_title role_description context task
      model temperature) = []"
    unfolding dispatched_cases by simp
  from unresolved have "\<not> truthy (if truthy model then model
      else environ_get env ''LITELLM_MODEL'')"
    unfolding environ_get_def .
  then show "outcome (ask_the_voice env completion role_title role_description
      context task model temperature) =
    Inl (ToolError
      ''Missing environment variable: LITELLM_MODEL and no model parameter provided'')"
    unfolding ask_the_voice_def Let_def missing_model_message_def by simp
qed

lemma extract_text_response: "extract_content (text_response found) =
    Inr (case found of Some text \<Rightarrow> text | None \<Rightarrow> [])"
  by (simp add: extract_content_def response_content_def text_response_def)

theorem temperature_passed_iff_supplied_witness:
  "outcome (ask_the_voice openai_env temperature_probe ''The Reviewer'' ''X'' ''Y'' ''Z''
      (Some ''openai/gpt-4'') None) = Inr ''got no temperature'' \<and>
   outcome (ask_the_voice openai_env temperature_probe ''The Reviewer'' ''X'' ''Y'' ''Z''
      (Some ''openai/gpt-4'') (Some 0)) = Inr ''got a temperature''"
proof
  have resolved: "truthy (if truthy (Some ''openai/gpt-4'') then Some ''openai/gpt-4''
      else openai_env ''LITELLM_MODEL'')"
    by simp
  from temperature_passed_iff_supplied [of "Some ''openai/gpt-4''" openai_env
      temperature_probe "''The Reviewer''" "''X''" "''Y''" "''Z''" None,
      THEN conjunct1, THEN mp, OF resolved]
  obtain p1 where held1: "p1 ''temperature'' = map_option FloatValue None"
    and result1: "outcome (ask_the_voice openai_env temperature_probe ''The Reviewer'' ''X''
      ''Y'' ''Z'' (Some ''openai/gpt-4'') None) =
      (case temperature_probe p1 of
         Inl e \<Rightarrow> Inl (ToolError (''LLM request failed: '' @ str_exn e))
       | Inr response \<Rightarrow> extract_content response)"
    by (elim exE conjE)
  have "temperature_probe p1 = Inr (text_response (Some ''got no temperature''))"
    using held1 by (simp add: temperature_probe_def)
  then show "outcome (ask_the_voice openai_env temperature_probe ''The Reviewer''
      ''X'' ''Y'' ''Z'' (Some ''openai/gpt-4'') None) = Inr ''got no temperature''"
    unfolding result1 by (simp add: extract_text_response)
  from temperature_passed_iff_supplied [of "Some ''openai/gpt-4''" openai_env
      temperature_probe "''The Reviewer''" "''X''" "''Y''" "''Z''" "Some 0",
      THEN conjunct1, THEN mp, OF resolved]
  obtain p2 where held2: "p2 ''temperature'' = map_option FloatValue (Some 0)"
    and result2: "outcome (ask_the_voice openai_env temperature_probe ''The Reviewer'' ''X''
      ''Y'' ''Z'' (Some ''openai/gpt-4'') (Some 0)) =
      (case temperature_probe p2 of
         Inl e \<Rightarrow> Inl (ToolError (''LLM request failed: '' @ str_exn e))
       | Inr response \<Rightarrow> extract_content response)"
    by (elim exE conjE)
  have "temperature_probe p2 = Inr (text_response (Some ''got a temperature''))"
    using held2 by (simp add: temperature_probe_def)
  then show "outcome (ask_the_voice openai_env temperature_probe ''The Reviewer''
      ''X'' ''Y'' ''Z'' (Some ''openai/gpt-4'') (Some 0)) = Inr ''got a temperature''"
    unfolding result2 by (simp add: extract_text_response)
qed

section \<open>The response\<close>

text \<open>
  What the second \<^verbatim>\<open>try\<close> block does with a response whose \<^verbatim>\<open>choices\<close> is
  missing or a list: the first choice's text is the result, a \<^verbatim>\<open>None\<close> content gives
  the empty string, and a missing attribute or an empty list ends the call with the
  \<^verbatim>\<open>ToolError\<close> \<^verbatim>\<open>Unexpected response format\<close>.
\<close>

lemma list_response_extraction:
  assumes "dispatched (ask_the_voice env completion role_title role_description context task
      model temperature) = [params]"
    and "completion params = Inr response"
    and "outcome (ask_the_voice env completion role_title role_description context task
      model temperature) = result"
  shows
    "(\<forall>text others.
        choices response =
          Present (ChoiceList (Choice (Present (Message (Present (Some text)))) # others))
        \<longrightarrow> result = Inr text) \<and>
     (\<forall>others.
        choices response =
          Present (ChoiceList (Choice (Present (Message (Present None))) # others))
        \<longrightarrow> result = Inr '''') \<and>
     (\<forall>d. choices response = Missing d
        \<longrightarrow> result = Inl (ToolError (''Unexpected response format: '' @ d))) \<and>
     (choices response = Present (ChoiceList [])
        \<longrightarrow> result = Inl (ToolError ''Unexpected response format: list index out of range'')) \<and>
     (\<forall>d others. choices response = Present (ChoiceList (Choice (Missing d) # others))
        \<longrightarrow> result = Inl (ToolError (''Unexpected response format: '' @ d))) \<and>
     (\<forall>d others.
        choices response = Present (ChoiceList (Choice (Present (Message (Missing d))) # others))
        \<longrightarrow> result = Inl (ToolError (''Unexpected response format: '' @ d)))"
proof -
  have result: "result = extract_content response"
    using outcome_dispatched [OF assms(1)] assms(2,3) by simp
  show ?thesis
    unfolding result
    by (intro conjI allI impI) (simp_all add: extract_content_def response_content_def)
qed

lemma list_response_examples:
  "outcome (ask_the_voice openai_env (reply (text_response (Some ''Looks good.'')))
      ''The Reviewer'' ''X'' ''Y'' ''Z'' (Some ''openai/gpt-4'') None) = Inr ''Looks good.'' \<and>
   outcome (ask_the_voice openai_env (reply (text_response None))
      ''The Reviewer'' ''X'' ''Y'' ''Z'' (Some ''openai/gpt-4'') None) = Inr '''' \<and>
   outcome (ask_the_voice openai_env (reply empty_response)
      ''The Reviewer'' ''X'' ''Y'' ''Z'' (Some ''openai/gpt-4'') None) =
     Inl (ToolError ''Unexpected response format: list index out of range'')"
proof -
  obtain p1 where p1: "dispatched (ask_the_voice openai_env
      (reply (text_response (Some ''Looks good.''))) ''The Reviewer'' ''X'' ''Y'' ''Z''
      (Some ''openai/gpt-4'') None) = [p1]"
    using dispatched_example by blast
  obtain p2 where p2: "dispatched (ask_the_voice openai_env (reply (text_response None))
      ''The Reviewer'' ''X'' ''Y'' ''Z'' (Some ''openai/gpt-4'') None) = [p2]"
    using dispatched_example by blast
  obtain p3 where p3: "dispatched (ask_the_voice openai_env (reply empty_response)
      ''The Reviewer'' ''X'' ''Y'' ''Z'' (Some ''openai/gpt-4'') None) = [p3]"
    using dispatched_example by blast
  have r1: "reply (text_response (Some ''Looks good.'')) p1 =
      Inr (text_response (Some ''Looks good.''))"
    and r2: "reply (text_response None) p2 = Inr (text_response None)"
    and r3: "reply empty_response p3 = Inr empty_response"
    by (simp_all add: reply_def)
  show ?thesis
    using list_response_extraction [OF p1 r1 refl] list_response_extraction [OF p2 r2 refl]
      list_response_extraction [OF p3 r3 refl]
    by (simp add: text_response_def empty_response_def)
qed

text \<open>
  The exceptions the handler lets through are those of \<^verbatim>\<open>[0]\<close> on a \<^verbatim>\<open>choices\<close>
  that is \<^verbatim>\<open>None\<close> or a mapping without the key \<^verbatim>\<open>0\<close>, and no others.
\<close>

lemma response_content_class:
  assumes "response_content response = Inl (Raise cls d)"
  shows "cls = AttributeError \<or> cls = IndexError \<or>
         (cls = TypeError \<and> choices response = Present NoneValue) \<or>
         (cls = KeyError \<and>
            (\<exists>items. choices response = Present (DictValue items) \<and>
               map_of items (IntKey 0) = None))"
proof (cases response)
  case (ModelResponse cs)
  show ?thesis
  proof (cases cs)
    case (Missing x)
    with assms ModelResponse show ?thesis by (simp add: response_content_def)
  next
    case (Present v)
    have tail: "cls = AttributeError" if "first_item v = Inr c" for c
    proof -
      obtain m where c: "c = Choice m" by (cases c)
      show ?thesis
      proof (cases m)
        case (Missing x)
        with assms ModelResponse Present that c show ?thesis
          by (simp add: response_content_def)
      next
        case mp: (Present mo)
        obtain ct where mo: "mo = Message ct" by (cases mo)
        with assms ModelResponse Present that c mp show ?thesis
          by (cases ct) (simp_all add: response_content_def)
      qed
    qed
    show ?thesis
    proof (cases v)
      case (ChoiceList xs)
      show ?thesis
      proof (cases xs)
        case Nil
        with assms ModelResponse Present ChoiceList show ?thesis
          by (simp add: response_content_def)
      next
        case (Cons c rest)
        with ChoiceList have "first_item v = Inr c" by simp
        then show ?thesis using tail by blast
      qed
    next
      case NoneValue
      with assms ModelResponse Present show ?thesis by (simp add: response_content_def)
    next
      case (DictValue items)
      show ?thesis
      proof (cases "map_of items (IntKey 0)")
        case None
        with assms ModelResponse Present DictValue show ?thesis
          by (simp add: response_content_def)
      next
        case (Some c)
        with DictValue have "first_item v = Inr c" by simp
        then show ?thesis using tail by blast
      qed
    qed
  qed
qed

lemma propagated_iff:
  "(\<exists>e. extract_content response = Inl (Propagated e)) \<longleftrightarrow>
     choices response = Present NoneValue \<or>
     (\<exists>items. choices response = Present (DictValue items) \<and> map_of items (IntKey 0) = None)"
proof
  assume "\<exists>e. extract_content response = Inl (Propagated e)"
  then obtain e where e: "extract_content response = Inl (Propagated e)" ..
  then obtain cls d where raised: "response_content response = Inl (Raise cls d)"
    and other: "cls \<noteq> AttributeError" "cls \<noteq> IndexError"
    by (auto simp: extract_content_def split: sum.splits py_exception.splits if_splits)
  from response_content_class [OF raised] other
  show "choices response = Present NoneValue \<or>
     (\<exists>items. choices response = Present (DictValue items) \<and> map_of items (IntKey 0) = None)"
    by blast
next
  assume "choices response = Present NoneValue \<or>
     (\<exists>items. choices response = Present (DictValue items) \<and> map_of items (IntKey 0) = None)"
  then show "\<exists>e. extract_content response = Inl (Propagated e)"
    by (auto simp: extract_content_def response_content_def)
qed

lemma mapping_response_key_error:
  "outcome (ask_the_voice openai_env (reply mapping_response) ''The Reviewer'' ''X'' ''Y'' ''Z''
      (Some ''openai/gpt-4'') None) = Inl (Propagated (Raise KeyError ''0''))"
proof -
  obtain p where p: "dispatched (ask_the_voice openai_env (reply mapping_response)
      ''The Reviewer'' ''X'' ''Y'' ''Z'' (Some ''openai/gpt-4'') None) = [p]"
    using dispatched_example by blast
  show ?thesis
    unfolding outcome_dispatched [OF p]
    by (simp add: reply_def mapping_response_def extract_content_def response_content_def)
qed

text \<open>
  C8 does not hold of the code. A response whose \<^verbatim>\<open>choices\<close> is \<^verbatim>\<open>None\<close> lacks
  the path to the text, and the docstring promises a \<^verbatim>\<open>ToolError\<close> for malformed
  responses; but \<^verbatim>\<open>[0]\<close> raises \<^verbatim>\<open>TypeError\<close>, which the handler, written for
  \<^verbatim>\<open>AttributeError\<close> and \<^verbatim>\<open>IndexError\<close> only, does not catch. After one
  successful call of \<^verbatim>\<open>completion\<close> the call of the tool ends with that
  \<^verbatim>\<open>TypeError\<close>, not with the error \<^verbatim>\<open>Unexpected response format\<close>.
\<close>

theorem none_choices_type_error_propagates:
  "length (dispatched (ask_the_voice openai_env (reply none_response) ''The Reviewer'' ''X''
      ''Y'' ''Z'' (Some ''openai/gpt-4'') None)) = 1 \<and>
   outcome (ask_the_voice openai_env (reply none_response) ''The Reviewer'' ''X'' ''Y'' ''Z''
      (Some ''openai/gpt-4'') None) =
     Inl (Propagated (Raise TypeError (CHR 0x27 # ''NoneType' object is not subscriptable'')))"
proof -
  obtain p where p: "dispatched (ask_the_voice openai_env (reply none_response)
      ''The Reviewer'' ''X'' ''Y'' ''Z'' (Some ''openai/gpt-4'') None) = [p]"
    using dispatched_example by blast
  have "outcome (ask_the_voice openai_env (reply none_response) ''The Reviewer'' ''X'' ''Y''
      ''Z'' (Some ''openai/gpt-4'') None) =
     Inl (Propagated (Raise TypeError (CHR 0x27 # ''NoneType' object is not subscriptable'')))"
    unfolding outcome_dispatched [OF p]
    by (simp add: reply_def none_response_def extract_content_def response_content_def)
  with p show ?thesis by simp
qed

text \<open>
  C10. A call whose model argument is the empty string behaves in everything as the
  call without a model argument: it uses the value of \<^verbatim>\<open>LITELLM_MODEL\<close> as the
  model when that is set and non-empty, and ends with the missing-configuration
  \<^verbatim>\<open>ToolError\<close>, without a call of \<^verbatim>\<open>completion\<close>, when it is unset or empty.
\<close>

theorem empty_model_argument_as_absent:
  "ask_the_voice env completion role_title role_description context task (Some '''') temperature =
   ask_the_voice env completion role_title role_description context task None temperature \<and>
   (\<forall>m. env ''LITELLM_MODEL'' = Some m \<and> m \<noteq> '''' \<longrightarrow>
      (\<exists>params. dispatched (ask_the_voice env completion role_title role_description context
           task (Some '''') temperature) = [params] \<and> params ''model'' = Some (StrValue m))) \<and>
   (env ''LITELLM_MODEL'' = None \<or> env ''LITELLM_MODEL'' = Some '''' \<longrightarrow>
      ask_the_voice env completion role_title role_description context task (Some '''')
          temperature =
        \<lparr>dispatched = [],
         outcome = Inl (ToolError
           ''Missing environment variable: LITELLM_MODEL and no model parameter provided'')\<rparr>)"
proof (intro conjI allI impI)
  show "ask_the_voice env completion role_title role_description context task (Some '''')
      temperature =
    ask_the_voice env completion role_title role_description context task None temperature"
    by (simp add: ask_the_voice_def)
next
  fix m assume "env ''LITELLM_MODEL'' = Some m \<and> m \<noteq> ''''"
  then show "\<exists>params. dispatched (ask_the_voice env completion role_title role_description
      context task (Some '''') temperature) = [params] \<and> params ''model'' = Some (StrValue m)"
    unfolding dispatched_cases
    by (cases temperature) (simp_all add: selected_model_def environ_get_def)
next
  assume "env ''LITELLM_MODEL'' = None \<or> env ''LITELLM_MODEL'' = Some ''''"
  then show "ask_the_voice env completion role_title role_description context task (Some '''')
      temperature =
    \<lparr>dispatched = [],
     outcome = Inl (ToolError
       ''Missing environment variable: LITELLM_MODEL and no model parameter provided'')\<rparr>"
    by (auto simp add: ask_the_voice_def environ_get_def missing_model_message_def)
qed

theorem empty_model_argument_as_absent_witness:
  "ask_the_voice openai_env (reply empty_response) ''The Reviewer'' ''X'' ''Y'' ''Z''
      (Some '''') None =
     \<lparr>dispatched = [],
      outcome = Inl (ToolError
        ''Missing environment variable: LITELLM_MODEL and no model parameter provided'')\<rparr> \<and>
   map (\<lambda>params. params ''model'')
     (dispatched (ask_the_voice selected_env (reply empty_response) ''The Reviewer'' ''X'' ''Y''
        ''Z'' (Some '''') None)) = [Some (StrValue ''local/llama'')]"
  using empty_model_argument_as_absent [of openai_env "reply empty_response"
      "''The Reviewer''" "''X''" "''Y''" "''Z''" None]
    empty_model_argument_as_absent [of selected_env "reply empty_response"
      "''The Reviewer''" "''X''" "''Y''" "''Z''" None]
  by (auto simp add: openai_env_def selected_env_def)

end
